theory Spec2Isabelle
  imports Main "HOL-Library.AList"
begin

section \<open>The appointment form: a model of \<^verbatim>\<open>src/components/AppointmentForm.tsx\<close>\<close>

text \<open>
  The component keeps six pieces of React state (doctor identifier, date, notes, two
  picker-visibility flags and the error mapping) and five handlers. The handlers are
  modelled as functions from the state of the current render to the next state, together
  with the list of calls made to the \<^verbatim>\<open>onSubmit\<close> callback.

  A JavaScript \<^verbatim>\<open>Date\<close> holds one time value: a whole number of milliseconds since the
  epoch, or \<^verbatim>\<open>NaN\<close> (an "Invalid Date"). The methods the component calls are modelled
  after the ECMAScript definitions (the section "Date Objects" of the standard). Time
  values are integers below \<open>2^53\<close>, so the arithmetic of the standard is exact and
  \<^typ>\<open>int\<close> models it; \<^verbatim>\<open>NaN\<close> is \<^term>\<open>None\<close>.

  The local time zone is a parameter: the function \<^verbatim>\<open>LocalTZA(t, isUTC)\<close> of the
  standard, which gives the offset of local time from UTC in milliseconds at a time
  \<open>t\<close>, read as a UTC time value when \<open>isUTC\<close> is true and as a local one otherwise.
  The standard leaves it to the host; a zone with daylight-saving time changes its offset
  twice a year.
\<close>

subsection \<open>ECMAScript time values\<close>

definition msPerDay :: int where "msPerDay = 86400000"
definition msPerHour :: int where "msPerHour = 3600000"
definition msPerMinute :: int where "msPerMinute = 60000"
definition msPerSecond :: int where "msPerSecond = 1000"
definition HoursPerDay :: int where "HoursPerDay = 24"
definition MinutesPerHour :: int where "MinutesPerHour = 60"
definition SecondsPerMinute :: int where "SecondsPerMinute = 60"

text \<open>The largest magnitude of a time value: \<open>8.64 \<times> 10^15\<close> milliseconds.\<close>

definition maxTimeValue :: int where "maxTimeValue = 8640000000000000"

definition Day :: "int \<Rightarrow> int" where
  "Day t = t div msPerDay"

definition TimeWithinDay :: "int \<Rightarrow> int" where
  "TimeWithinDay t = t mod msPerDay"

definition DaysInYear :: "int \<Rightarrow> int" where
  "DaysInYear y =
     (if y mod 4 \<noteq> 0 then 365
      else if y mod 100 \<noteq> 0 then 366
      else if y mod 400 \<noteq> 0 then 365
      else 366)"

definition DayFromYear :: "int \<Rightarrow> int" where
  "DayFromYear y =
     365 * (y - 1970) + (y - 1969) div 4 - (y - 1901) div 100 + (y - 1601) div 400"

definition TimeFromYear :: "int \<Rightarrow> int" where
  "TimeFromYear y = msPerDay * DayFromYear y"

text \<open>
  The standard defines \<^verbatim>\<open>YearFromTime(t)\<close> as the largest \<open>y\<close> with
  \<open>TimeFromYear y \<le> t\<close>. It is computed the way engines do: an estimate from the mean
  length of a Gregorian year (365.2425 days), corrected by at most one year. The lemmas
  \<open>YearFromTime_spec\<close> and \<open>YearFromTime_largest\<close> below show that the result is
  the year of the standard.
\<close>

definition YearFromTime :: "int \<Rightarrow> int" where
  "YearFromTime t =
     (let y = (Day t * 10000) div 3652425 + 1970
      in if DayFromYear y > Day t then y - 1
         else if DayFromYear (y + 1) \<le> Day t then y + 1
         else y)"

definition InLeapYear :: "int \<Rightarrow> int" where
  "InLeapYear t = (if DaysInYear (YearFromTime t) = 365 then 0 else 1)"

definition DayWithinYear :: "int \<Rightarrow> int" where
  "DayWithinYear t = Day t - DayFromYear (YearFromTime t)"

definition MonthFromTime :: "int \<Rightarrow> int" where
  "MonthFromTime t =
     (let d = DayWithinYear t; l = InLeapYear t
      in if d < 31 then 0
         else if d < 59 + l then 1
         else if d < 90 + l then 2
         else if d < 120 + l then 3
         else if d < 151 + l then 4
         else if d < 181 + l then 5
         else if d < 212 + l then 6
         else if d < 243 + l then 7
         else if d < 273 + l then 8
         else if d < 304 + l then 9
         else if d < 334 + l then 10
         else 11)"

definition DateFromTime :: "int \<Rightarrow> int" where
  "DateFromTime t =
     (let d = DayWithinYear t; l = InLeapYear t; m = MonthFromTime t
      in if m = 0 then d + 1
         else if m = 1 then d - 30
         else if m = 2 then d - 58 - l
         else if m = 3 then d - 89 - l
         else if m = 4 then d - 119 - l
         else if m = 5 then d - 150 - l
         else if m = 6 then d - 180 - l
         else if m = 7 then d - 211 - l
         else if m = 8 then d - 242 - l
         else if m = 9 then d - 272 - l
         else if m = 10 then d - 303 - l
         else d - 333 - l)"

definition HourFromTime :: "int \<Rightarrow> int" where
  "HourFromTime t = (t div msPerHour) mod HoursPerDay"

definition MinFromTime :: "int \<Rightarrow> int" where
  "MinFromTime t = (t div msPerMinute) mod MinutesPerHour"

definition SecFromTime :: "int \<Rightarrow> int" where
  "SecFromTime t = (t div msPerSecond) mod SecondsPerMinute"

definition msFromTime :: "int \<Rightarrow> int" where
  "msFromTime t = t mod msPerSecond"

definition MakeTime :: "int \<Rightarrow> int \<Rightarrow> int \<Rightarrow> int \<Rightarrow> int" where
  "MakeTime hour minute sec ms =
     hour * msPerHour + minute * msPerMinute + sec * msPerSecond + ms"

text \<open>
  \<^verbatim>\<open>MakeDay(year, month, date)\<close>: the day number of the first day of month
  \<open>month mod 12\<close> of year \<open>year + month div 12\<close>, plus \<open>date - 1\<close>. A \<open>date\<close> beyond
  the end of the month runs over into the following month.
\<close>

definition DaysBeforeMonth :: "int \<Rightarrow> int \<Rightarrow> int" where
  "DaysBeforeMonth ym mn =
     (let l = (if DaysInYear ym = 365 then 0 else 1)
      in if mn = 0 then 0
         else if mn = 1 then 31
         else if mn = 2 then 59 + l
         else if mn = 3 then 90 + l
         else if mn = 4 then 120 + l
         else if mn = 5 then 151 + l
         else if mn = 6 then 181 + l
         else if mn = 7 then 212 + l
         else if mn = 8 then 243 + l
         else if mn = 9 then 273 + l
         else if mn = 10 then 304 + l
         else 334 + l)"

definition MakeDay :: "int \<Rightarrow> int \<Rightarrow> int \<Rightarrow> int" where
  "MakeDay year month dt =
     (let ym = year + month div 12;
          mn = month mod 12
      in DayFromYear ym + DaysBeforeMonth ym mn + dt - 1)"

definition MakeDate :: "int \<Rightarrow> int \<Rightarrow> int" where
  "MakeDate day time = day * msPerDay + time"

definition TimeClip :: "int \<Rightarrow> int option" where
  "TimeClip time = (if \<bar>time\<bar> > maxTimeValue then None else Some time)"

text \<open>
  \<^verbatim>\<open>LocalTime(t) = t + LocalTZA(t, true)\<close> and \<^verbatim>\<open>UTC(t) = t - LocalTZA(t, false)\<close>.
  For a local time that a transition skips or repeats, the standard has
  \<^verbatim>\<open>LocalTZA(t, false)\<close> be the offset before the transition.
\<close>

type_synonym timezone = "int \<Rightarrow> bool \<Rightarrow> int"

definition LocalTime :: "timezone \<Rightarrow> int \<Rightarrow> int" where
  "LocalTime tz t = t + tz t True"

definition UTC :: "timezone \<Rightarrow> int \<Rightarrow> int" where
  "UTC tz t = t - tz t False"

subsection \<open>Date objects\<close>

datatype Date = Date (getTime: "int option")

text \<open>\<^verbatim>\<open>new Date(d)\<close> for a Date \<open>d\<close>: a fresh object with the same time value.\<close>

definition newDateFrom :: "Date \<Rightarrow> Date" where
  "newDateFrom d = Date (case getTime d of None \<Rightarrow> None | Some tv \<Rightarrow> TimeClip tv)"

text \<open>\<^verbatim>\<open>new Date()\<close>: the reading \<open>now\<close> of the clock.\<close>

definition newDateNow :: "int \<Rightarrow> Date" where
  "newDateNow now = Date (Some now)"

text \<open>
  \<^verbatim>\<open>a < b\<close> on two Dates compares their time values as numbers; a comparison with
  \<^verbatim>\<open>NaN\<close> is false.
\<close>

definition dateLess :: "Date \<Rightarrow> Date \<Rightarrow> bool" where
  "dateLess a b =
     (case getTime a of
        None \<Rightarrow> False
      | Some x \<Rightarrow> (case getTime b of None \<Rightarrow> False | Some y \<Rightarrow> x < y))"

definition getFullYear :: "timezone \<Rightarrow> Date \<Rightarrow> int option" where
  "getFullYear tz d =
     (case getTime d of None \<Rightarrow> None | Some tv \<Rightarrow> Some (YearFromTime (LocalTime tz tv)))"

definition getMonth :: "timezone \<Rightarrow> Date \<Rightarrow> int option" where
  "getMonth tz d =
     (case getTime d of None \<Rightarrow> None | Some tv \<Rightarrow> Some (MonthFromTime (LocalTime tz tv)))"

definition getDate :: "timezone \<Rightarrow> Date \<Rightarrow> int option" where
  "getDate tz d =
     (case getTime d of None \<Rightarrow> None | Some tv \<Rightarrow> Some (DateFromTime (LocalTime tz tv)))"

definition getHours :: "timezone \<Rightarrow> Date \<Rightarrow> int option" where
  "getHours tz d =
     (case getTime d of None \<Rightarrow> None | Some tv \<Rightarrow> Some (HourFromTime (LocalTime tz tv)))"

definition getMinutes :: "timezone \<Rightarrow> Date \<Rightarrow> int option" where
  "getMinutes tz d =
     (case getTime d of None \<Rightarrow> None | Some tv \<Rightarrow> Some (MinFromTime (LocalTime tz tv)))"



text \<open>
  The setters take a number that may be \<^verbatim>\<open>NaN\<close> (the getter of an invalid Date
  returns it). \<^verbatim>\<open>setFullYear\<close> on an invalid Date starts from time value 0; the
  other setters leave an invalid Date invalid.
\<close>

definition setFullYear :: "timezone \<Rightarrow> int option \<Rightarrow> Date \<Rightarrow> Date" where
  "setFullYear tz year d =
     (let t = (case getTime d of None \<Rightarrow> 0 | Some tv \<Rightarrow> LocalTime tz tv)
      in case year of
           None \<Rightarrow> Date None
         | Some y \<Rightarrow>
             Date (TimeClip (UTC tz
               (MakeDate (MakeDay y (MonthFromTime t) (DateFromTime t)) (TimeWithinDay t)))))"

definition setMonth :: "timezone \<Rightarrow> int option \<Rightarrow> Date \<Rightarrow> Date" where
  "setMonth tz month d =
     (case getTime d of
        None \<Rightarrow> Date None
      | Some tv \<Rightarrow>
          (let t = LocalTime tz tv
           in case month of
                None \<Rightarrow> Date None
              | Some m \<Rightarrow>
                  Date (TimeClip (UTC tz
                    (MakeDate (MakeDay (YearFromTime t) m (DateFromTime t))
                       (TimeWithinDay t))))))"

definition setDate :: "timezone \<Rightarrow> int option \<Rightarrow> Date \<Rightarrow> Date" where
  "setDate tz dt d =
     (case getTime d of
        None \<Rightarrow> Date None
      | Some tv \<Rightarrow>
          (let t = LocalTime tz tv
           in case dt of
                None \<Rightarrow> Date None
              | Some n \<Rightarrow>
                  Date (TimeClip (UTC tz
                    (MakeDate (MakeDay (YearFromTime t) (MonthFromTime t) n)
                       (TimeWithinDay t))))))"

definition setHours :: "timezone \<Rightarrow> int option \<Rightarrow> Date \<Rightarrow> Date" where
  "setHours tz hour d =
     (case getTime d of
        None \<Rightarrow> Date None
      | Some tv \<Rightarrow>
          (let t = LocalTime tz tv
           in case hour of
                None \<Rightarrow> Date None
              | Some h \<Rightarrow>
                  Date (TimeClip (UTC tz
                    (MakeDate (Day t)
                       (MakeTime h (MinFromTime t) (SecFromTime t) (msFromTime t)))))))"

definition setMinutes :: "timezone \<Rightarrow> int option \<Rightarrow> Date \<Rightarrow> Date" where
  "setMinutes tz minute d =
     (case getTime d of
        None \<Rightarrow> Date None
      | Some tv \<Rightarrow>
          (let t = LocalTime tz tv
           in case minute of
                None \<Rightarrow> Date None
              | Some m \<Rightarrow>
                  Date (TimeClip (UTC tz
                    (MakeDate (Day t)
                       (MakeTime (HourFromTime t) m (SecFromTime t) (msFromTime t)))))))"

subsection \<open>Props, state and environment of the component\<close>

record Doctor =
  doctor_id :: string
  doctor_name :: string
  specialty :: string

text \<open>The record passed to \<^verbatim>\<open>onSubmit\<close>, also the type of \<^verbatim>\<open>initialValues\<close>.\<close>

record appointment =
  doctorId :: string
  date :: Date
  "notes" :: string

text \<open>
  The props other than the callback. \<^verbatim>\<open>onSubmit\<close> is the caller's function: each
  handler returns the list of arguments it called \<^verbatim>\<open>onSubmit\<close> with, in order.
  \<^verbatim>\<open>initialValues\<close> and \<^verbatim>\<open>isLoading\<close> are optional props.
\<close>

record props =
  doctors :: "Doctor list"
  initialValues :: "appointment option"
  isLoading :: "bool option"

text \<open>The six \<^verbatim>\<open>useState\<close> cells. A JavaScript object with string values is an
  association list in insertion order.\<close>

record form_state = appointment +
  showDatePicker :: bool
  showTimePicker :: bool
  errors :: "(string \<times> string) list"

datatype PlatformOS = ios | android | macos | windows | web

text \<open>What a handler reads from outside the component: the clock (\<^verbatim>\<open>new Date()\<close>),
  the local time zone of the device and \<^verbatim>\<open>Platform.OS\<close>.\<close>

record env =
  now :: int
  LocalTZA :: timezone
  OS :: PlatformOS

type_synonym handler_result = "form_state \<times> appointment list"

text \<open>The destructuring default \<^verbatim>\<open>isLoading = false\<close>.\<close>

definition isLoadingOf :: "props \<Rightarrow> bool" where
  "isLoadingOf p = (case isLoading p of None \<Rightarrow> False | Some b \<Rightarrow> b)"

text \<open>
  The initial state (lines 36 to 41). \<^verbatim>\<open>x || y\<close> is \<open>y\<close> when \<open>x\<close> is undefined or
  the empty string; a Date object is never falsy.
\<close>

definition initialState :: "props \<Rightarrow> env \<Rightarrow> form_state" where
  "initialState p e =
     \<lparr> doctorId = (case initialValues p of None \<Rightarrow> [] | Some iv \<Rightarrow> doctorId iv),
       date = (case initialValues p of None \<Rightarrow> newDateNow (now e) | Some iv \<Rightarrow> date iv),
       notes = (case initialValues p of None \<Rightarrow> [] | Some iv \<Rightarrow> notes iv),
       showDatePicker = False,
       showTimePicker = False,
       errors = [] \<rparr>"

subsection \<open>Validation and submission\<close>

text \<open>The two messages; \<open>0xE9\<close> is the letter e with an acute accent.\<close>

definition doctorIdMessage :: string where
  "doctorIdMessage = ''Por favor, selecione um m'' @ [CHR 0xE9] @ ''dico''"

definition dateMessage :: string where
  "dateMessage = ''A data da consulta deve ser no futuro''"

definition Object_keys :: "(string \<times> string) list \<Rightarrow> string list" where
  "Object_keys obj = map fst obj"

text \<open>
  \<^verbatim>\<open>validateForm\<close> (lines 43 to 57): builds \<^verbatim>\<open>newErrors\<close> from the empty object,
  stores it with \<^verbatim>\<open>setErrors\<close> and returns whether it has no keys.
  \<^verbatim>\<open>!doctorId\<close> holds for the empty string only.
\<close>

definition validateForm :: "props \<Rightarrow> env \<Rightarrow> form_state \<Rightarrow> form_state \<times> bool" where
  "validateForm p e st =
     (let newErrors0 = [];
          newErrors1 = (if doctorId st = []
                        then AList.update ''doctorId'' doctorIdMessage newErrors0
                        else newErrors0);
          newErrors2 = (if dateLess (date st) (newDateNow (now e))
                        then AList.update ''date'' dateMessage newErrors1
                        else newErrors1)
      in (st\<lparr>errors := newErrors2\<rparr>, length (Object_keys newErrors2) = 0))"

text \<open>\<^verbatim>\<open>handleSubmit\<close> (lines 59 to 67).\<close>

definition handleSubmit :: "props \<Rightarrow> env \<Rightarrow> form_state \<Rightarrow> handler_result" where
  "handleSubmit p e st =
     (case validateForm p e st of
        (st', valid) \<Rightarrow>
          if valid
          then (st', [\<lparr> doctorId = doctorId st, date = date st, notes = notes st \<rparr>])
          else (st', []))"

subsection \<open>The picker handlers\<close>

text \<open>
  \<^verbatim>\<open>onDateChange\<close> (lines 69 to 78) and \<^verbatim>\<open>onTimeChange\<close> (lines 80 to 88). The
  optional argument is \<^term>\<open>None\<close> when the picker passes no value; any Date object,
  also an invalid one, is truthy.
\<close>

definition onDateChange :: "props \<Rightarrow> env \<Rightarrow> Date option \<Rightarrow> form_state \<Rightarrow> form_state" where
  "onDateChange p e selectedDate st =
     (let st1 = st\<lparr>showDatePicker := (OS e = ios)\<rparr>
      in case selectedDate of
           None \<Rightarrow> st1
         | Some sel \<Rightarrow>
             (let newDate0 = newDateFrom (date st);
                  newDate1 = setFullYear (LocalTZA e) (getFullYear (LocalTZA e) sel) newDate0;
                  newDate2 = setMonth (LocalTZA e) (getMonth (LocalTZA e) sel) newDate1;
                  newDate3 = setDate (LocalTZA e) (getDate (LocalTZA e) sel) newDate2
              in st1\<lparr>date := newDate3\<rparr>))"

definition onTimeChange :: "props \<Rightarrow> env \<Rightarrow> Date option \<Rightarrow> form_state \<Rightarrow> form_state" where
  "onTimeChange p e selectedTime st =
     (let st1 = st\<lparr>showTimePicker := (OS e = ios)\<rparr>
      in case selectedTime of
           None \<Rightarrow> st1
         | Some sel \<Rightarrow>
             (let newDate0 = newDateFrom (date st);
                  newDate1 = setHours (LocalTZA e) (getHours (LocalTZA e) sel) newDate0;
                  newDate2 = setMinutes (LocalTZA e) (getMinutes (LocalTZA e) sel) newDate1
              in st1\<lparr>date := newDate2\<rparr>))"

subsection \<open>The rendered widgets and their events\<close>

text \<open>
  The submit button (lines 169 to 176) is a widget of the UI toolkit. The component
  passes it \<^verbatim>\<open>onPress={handleSubmit}\<close>, \<^verbatim>\<open>loading={isLoading}\<close> and
  \<^verbatim>\<open>disabled={isLoading}\<close>. The toolkit's contract for a button is that a press on a
  disabled button does not call \<^verbatim>\<open>onPress\<close>; \<open>pressButton\<close> states that contract.
\<close>

record button =
  title :: string
  onPress :: "form_state \<Rightarrow> handler_result"
  loading :: bool
  disabled :: bool

definition submitButton :: "props \<Rightarrow> env \<Rightarrow> button" where
  "submitButton p e =
     \<lparr> title = ''Agendar Consulta'',
       onPress = handleSubmit p e,
       loading = isLoadingOf p,
       disabled = isLoadingOf p \<rparr>"

definition pressButton :: "button \<Rightarrow> form_state \<Rightarrow> handler_result" where
  "pressButton b st = (if disabled b then (st, []) else onPress b st)"

text \<open>
  The events the rendered tree can deliver, with the handler each is wired to: the
  doctor picker (line 107), the two buttons that open a picker (lines 126 and 130), the
  pickers' \<^verbatim>\<open>onChange\<close> (lines 141 and 151), the notes input (line 163) and the
  submit button.
\<close>

datatype event =
    SelectDoctor string
  | OpenDatePicker
  | OpenTimePicker
  | DateChange "Date option"
  | TimeChange "Date option"
  | ChangeNotes string
  | PressSubmit

fun dispatch :: "props \<Rightarrow> env \<Rightarrow> event \<Rightarrow> form_state \<Rightarrow> handler_result" where
  "dispatch p e (SelectDoctor itemValue) st = (st\<lparr>doctorId := itemValue\<rparr>, [])"
| "dispatch p e OpenDatePicker st = (st\<lparr>showDatePicker := True\<rparr>, [])"
| "dispatch p e OpenTimePicker st = (st\<lparr>showTimePicker := True\<rparr>, [])"
| "dispatch p e (DateChange selectedDate) st = (onDateChange p e selectedDate st, [])"
| "dispatch p e (TimeChange selectedTime) st = (onTimeChange p e selectedTime st, [])"
| "dispatch p e (ChangeNotes text) st = (st\<lparr>notes := text\<rparr>, [])"
| "dispatch p e PressSubmit st = pressButton (submitButton p e) st"

subsection \<open>Example data\<close>

text \<open>
  Two time zones. \<open>zoneUTC\<close> has offset 0 throughout. \<open>zoneNewYork\<close> is
  America/New_York in 2025: five hours behind UTC, four hours behind from
  2025-03-09 07:00 UTC (local 02:00, which becomes 03:00) to 2025-11-02 06:00 UTC (local
  02:00, which becomes 01:00). Local times of the skipped and of the repeated hour are
  read with the offset before the transition.
\<close>

definition zoneUTC :: timezone where
  "zoneUTC t isUTC = 0"


text \<open>
  The scenario of the specification: one doctor, a device on UTC whose clock reads
  2025-01-31 10:00:00.000, and a draft for the next day at 10:00.
\<close>

definition exampleProps :: props where
  "exampleProps =
     \<lparr> doctors = [\<lparr> doctor_id = ''d1'', doctor_name = ''Ana'', specialty = ''Cardio'' \<rparr>],
       initialValues = None,
       isLoading = None \<rparr>"

definition exampleEnv :: env where
  "exampleEnv = \<lparr> now = 1738317600000, LocalTZA = zoneUTC, OS = android \<rparr>"

definition exampleState :: form_state where
  "exampleState =
     \<lparr> doctorId = ''d1'', date = Date (Some 1738404000000), notes = [],
       showDatePicker = False, showTimePicker = False, errors = [] \<rparr>"

section \<open>Properties\<close>

subsection \<open>Facts about validation and submission\<close>

lemma validateForm_errors:
  "errors (fst (validateForm p e st)) =
     (if doctorId st = [] then [(''doctorId'', doctorIdMessage)] else []) @
     (if dateLess (date st) (newDateNow (now e)) then [(''date'', dateMessage)] else [])"
  by (simp add: validateForm_def Let_def)

lemma validateForm_snd:
  "snd (validateForm p e st) = (errors (fst (validateForm p e st)) = [])"
  by (simp add: validateForm_def Let_def Object_keys_def)

lemma validateForm_draft:
  "doctorId (fst (validateForm p e st)) = doctorId st"
  "date (fst (validateForm p e st)) = date st"
  "notes (fst (validateForm p e st)) = notes st"
  by (simp_all add: validateForm_def Let_def)

lemma handleSubmit_calls:
  "snd (handleSubmit p e st) =
     (if snd (validateForm p e st)
      then [\<lparr> doctorId = doctorId st, date = date st, notes = notes st \<rparr>] else [])"
  by (simp add: handleSubmit_def split: prod.splits)

lemma handleSubmit_state:
  "fst (handleSubmit p e st) = fst (validateForm p e st)"
  by (simp add: handleSubmit_def split: prod.splits)

text \<open>
  The date rule as the code has it: the \<^verbatim>\<open>date\<close> error is reported exactly when the
  draft's date is a valid Date strictly before the clock reading.
\<close>

lemma validateForm_date_error_iff:
  "(map_of (errors (fst (validateForm p e st))) ''date'' = Some dateMessage)
     = (\<exists>t. getTime (date st) = Some t \<and> t < now e)"
  by (cases "getTime (date st)")
     (simp_all add: validateForm_errors dateLess_def newDateNow_def)

subsection \<open>Facts about time values\<close>









lemma TimeClip_in_range: "\<bar>x\<bar> \<le> maxTimeValue \<Longrightarrow> TimeClip x = Some x"
  by (simp add: TimeClip_def)

lemma Day_bounds: "Day x * msPerDay \<le> x \<and> x < Day x * msPerDay + msPerDay"
proof -
  have "x = Day x * msPerDay + x mod msPerDay"
    by (simp add: Day_def)
  moreover have "0 \<le> x mod msPerDay" and "x mod msPerDay < msPerDay"
    by (simp_all add: msPerDay_def)
  ultimately show ?thesis by linarith
qed


lemma div_bounds:
  fixes x k :: int
  assumes "0 < k"
  shows "k * (x div k) \<le> x \<and> x < k * (x div k) + k"
proof -
  have "x = k * (x div k) + x mod k" by simp
  moreover have "0 \<le> x mod k" and "x mod k < k" using assms by simp_all
  ultimately show ?thesis by linarith
qed

lemma DayFromYear_bounds:
  "146097 * y - 287811596 \<le> 400 * DayFromYear y \<and>
   400 * DayFromYear y \<le> 146097 * y - 287810501"
proof -
  define a where "a = (y - 1969) div 4"
  define b where "b = (y - 1901) div 100"
  define c where "c = (y - 1601) div 400"
  have A: "4 * a \<le> y - 1969 \<and> y - 1969 < 4 * a + 4"
    unfolding a_def using div_bounds [of 4 "y - 1969"] by simp
  have B: "100 * b \<le> y - 1901 \<and> y - 1901 < 100 * b + 100"
    unfolding b_def using div_bounds [of 100 "y - 1901"] by simp
  have C: "400 * c \<le> y - 1601 \<and> y - 1601 < 400 * c + 400"
    unfolding c_def using div_bounds [of 400 "y - 1601"] by simp
  have "DayFromYear y = 365 * y - 719050 + a - b + c"
    by (simp add: DayFromYear_def a_def b_def c_def)
  then show ?thesis using A B C by simp
qed

lemma year_estimate:
  fixes d :: int
  shows "146097 * ((d * 10000) div 3652425) \<le> 400 * d \<and>
         400 * d < 146097 * ((d * 10000) div 3652425) + 146097"
  using div_bounds [of 3652425 "d * 10000"] by simp

text \<open>
  \<open>YearFromTime\<close> meets the standard's definition: the year it returns starts at or
  before \<open>t\<close>, and the year after starts later.
\<close>

lemma YearFromTime_Day:
  "DayFromYear (YearFromTime t) \<le> Day t \<and> Day t < DayFromYear (YearFromTime t + 1)"
proof -
  define d where "d = Day t"
  define n where "n = (d * 10000) div 3652425"
  have e: "146097 * n \<le> 400 * d \<and> 400 * d < 146097 * n + 146097"
    unfolding n_def by (rule year_estimate)
  have lo: "DayFromYear (n + 1969) \<le> d"
    using e DayFromYear_bounds [of "n + 1969"] by simp
  have hi: "d < DayFromYear (n + 1972)"
    using e DayFromYear_bounds [of "n + 1972"] by simp
  have Y: "YearFromTime t =
      (if DayFromYear (n + 1970) > d then n + 1969
       else if DayFromYear (n + 1971) \<le> d then n + 1971 else n + 1970)"
    unfolding YearFromTime_def Let_def d_def [symmetric] n_def [symmetric]
    by (simp add: add.commute)
  show ?thesis
    unfolding Y d_def [symmetric] using lo hi by (simp add: add.commute)
qed

lemma YearFromTime_spec:
  "TimeFromYear (YearFromTime t) \<le> t \<and> t < TimeFromYear (YearFromTime t + 1)"
proof -
  have a: "DayFromYear (YearFromTime t) * 86400000 \<le> Day t * 86400000"
    using YearFromTime_Day [of t] by simp
  have b: "Day t * 86400000 + 86400000 \<le> DayFromYear (YearFromTime t + 1) * 86400000"
    using YearFromTime_Day [of t] by simp
  show ?thesis
    using a b Day_bounds [of t] by (simp add: TimeFromYear_def msPerDay_def)
qed


lemma DayFromYear_Suc: "DayFromYear y < DayFromYear (y + 1)"
proof -
  have "(y - 1969) div 4 \<le> (y + 1 - 1969) div 4"
    by (intro zdiv_mono1) simp_all
  moreover have "(y + 1 - 1901) div 100 \<le> (y - 1901) div 100 + 1"
    using div_bounds [of 100 "y - 1901"] div_bounds [of 100 "y + 1 - 1901"] by simp
  moreover have "(y - 1601) div 400 \<le> (y + 1 - 1601) div 400"
    by (intro zdiv_mono1) simp_all
  ultimately show ?thesis
    unfolding DayFromYear_def by simp
qed

lemma DayFromYear_strict_mono:
  assumes "y < y'"
  shows "DayFromYear y < DayFromYear y'"
proof (cases "y' = y + 1")
  case True
  then show ?thesis by (simp add: DayFromYear_Suc)
next
  case False
  then have "y + 2 \<le> y'" using assms by simp
  then show ?thesis
    using DayFromYear_bounds [of y] DayFromYear_bounds [of y'] by simp
qed

lemma YearFromTime_largest:
  assumes "TimeFromYear y \<le> t"
  shows "y \<le> YearFromTime t"
proof (rule ccontr)
  assume "\<not> y \<le> YearFromTime t"
  then have "YearFromTime t + 1 \<le> y" by simp
  then have "DayFromYear (YearFromTime t + 1) \<le> DayFromYear y"
    using DayFromYear_strict_mono [of "YearFromTime t + 1" y]
    by (cases "YearFromTime t + 1 = y") simp_all
  then have "TimeFromYear (YearFromTime t + 1) \<le> TimeFromYear y"
    by (simp add: TimeFromYear_def msPerDay_def)
  then show False
    using assms YearFromTime_spec [of t] by simp
qed

lemma LocalTime_UTC_const:
  assumes "\<And>x b. tz x b = c"
  shows "LocalTime tz (UTC tz x) = x"
  by (simp add: LocalTime_def UTC_def assms)

lemma TimeWithinDay_MakeDate: "TimeWithinDay (MakeDate D (TimeWithinDay x)) = TimeWithinDay x"
  by (simp add: TimeWithinDay_def MakeDate_def)

lemma TimeClip_Some: "TimeClip x = Some y \<Longrightarrow> y = x"
  by (simp add: TimeClip_def split: if_splits)

text \<open>
  Each of the three setters of the date path builds its result from a new day number and
  the old time within the day. In a zone with one offset throughout, where the result is
  a valid Date, its local time within the day is the old one.
\<close>

lemma setFullYear_time_of_day:
  assumes "\<And>x b. tz x b = c"
    and "setFullYear tz y (Date (Some a)) = Date (Some b)"
  shows "TimeWithinDay (LocalTime tz b) = TimeWithinDay (LocalTime tz a)"
  using assms(2)
  by (cases y)
     (auto simp add: setFullYear_def Let_def LocalTime_UTC_const [OF assms(1)]
        TimeWithinDay_MakeDate dest!: TimeClip_Some)

lemma setMonth_time_of_day:
  assumes "\<And>x b. tz x b = c"
    and "setMonth tz m (Date (Some a)) = Date (Some b)"
  shows "TimeWithinDay (LocalTime tz b) = TimeWithinDay (LocalTime tz a)"
  using assms(2)
  by (cases m)
     (auto simp add: setMonth_def Let_def LocalTime_UTC_const [OF assms(1)]
        TimeWithinDay_MakeDate dest!: TimeClip_Some)

lemma setDate_time_of_day:
  assumes "\<And>x b. tz x b = c"
    and "setDate tz n (Date (Some a)) = Date (Some b)"
  shows "TimeWithinDay (LocalTime tz b) = TimeWithinDay (LocalTime tz a)"
  using assms(2)
  by (cases n)
     (auto simp add: setDate_def Let_def LocalTime_UTC_const [OF assms(1)]
        TimeWithinDay_MakeDate dest!: TimeClip_Some)

lemma setMonth_invalid: "setMonth tz m (Date None) = Date None"
  by (simp add: setMonth_def)

lemma setDate_invalid: "setDate tz n (Date None) = Date None"
  by (simp add: setDate_def)

lemma setHours_invalid: "setHours tz h (Date None) = Date None"
  by (simp add: setHours_def)

lemma setMinutes_invalid: "setMinutes tz m (Date None) = Date None"
  by (simp add: setMinutes_def)

text \<open>
  The part of the date path that holds in a zone with one offset throughout: where the
  current date-time is a valid Date and the updated one is too, the local time within the
  day (hour, minute, second and millisecond) is the same before and after.
\<close>

lemma onDateChange_time_of_day:
  assumes z: "\<And>x b. LocalTZA e x b = c"
    and d: "date st = Date (Some t)"
    and r: "\<bar>t\<bar> \<le> maxTimeValue"
    and u: "date (onDateChange p e (Some sel) st) = Date (Some u)"
  shows "TimeWithinDay (LocalTime (LocalTZA e) u) = TimeWithinDay (LocalTime (LocalTZA e) t)"
proof -
  define tz where "tz = LocalTZA e"
  have c: "\<And>x b. tz x b = c" by (simp add: tz_def z)
  define d1 where "d1 = setFullYear tz (getFullYear tz sel) (Date (Some t))"
  define d2 where "d2 = setMonth tz (getMonth tz sel) d1"
  have n0: "newDateFrom (date st) = Date (Some t)"
    using r by (simp add: newDateFrom_def d TimeClip_in_range)
  have res: "setDate tz (getDate tz sel) d2 = Date (Some u)"
    using u by (simp add: onDateChange_def Let_def n0 tz_def d1_def d2_def)
  obtain b where b: "d2 = Date (Some b)"
    using res setDate_invalid by (cases d2) (metis Date.inject option.exhaust option.discI)
  obtain a where a: "d1 = Date (Some a)"
    using b setMonth_invalid unfolding d2_def
    by (cases d1) (metis Date.inject option.exhaust option.discI)
  have "TimeWithinDay (LocalTime tz u) = TimeWithinDay (LocalTime tz b)"
    using res b setDate_time_of_day [OF c] by simp
  also have "\<dots> = TimeWithinDay (LocalTime tz a)"
    using b a setMonth_time_of_day [OF c] by (simp add: d2_def)
  also have "\<dots> = TimeWithinDay (LocalTime tz t)"
    using a setFullYear_time_of_day [OF c] by (simp add: d1_def)
  finally show ?thesis by (simp add: tz_def)
qed

text \<open>
  The time path on Dates that are not valid: an invalid current Date stays invalid, and
  an invalid picked Date makes the updated one invalid.
\<close>

lemma onTimeChange_invalid_current:
  assumes "date st = Date None"
  shows "date (onTimeChange p e (Some sel) st) = Date None"
  by (simp add: onTimeChange_def Let_def newDateFrom_def assms setHours_invalid
      setMinutes_invalid)

lemma onTimeChange_invalid_picked:
  "date (onTimeChange p e (Some (Date None)) st) = Date None"
  by (simp add: onTimeChange_def Let_def getHours_def getMinutes_def setHours_def
      setMinutes_def split: option.splits)

text \<open>
  The time path at the end of the range of time values: the last moment a Date can hold
  is 00:00 UTC of its day, and setting a later time of that day gives an invalid Date.
\<close>

lemma onTimeChange_end_of_range:
  "date (onTimeChange \<lparr> doctors = [], initialValues = None, isLoading = None \<rparr>
           \<lparr> now = 1738317600000, LocalTZA = zoneUTC, OS = android \<rparr>
           (Some (Date (Some 1738420200000)))
           \<lparr> doctorId = ''d1'', date = Date (Some 8640000000000000), notes = [],
             showDatePicker = False, showTimePicker = True, errors = [] \<rparr>)
     = Date None"
  by code_simp

section \<open>The claims\<close>

subsection \<open>C1: a date at the clock reading\<close>

text \<open>
  C1 says that every draft whose date-time is at or before the current moment gets an
  error on field \<^verbatim>\<open>date\<close>, so that a forwarded appointment is strictly later than the
  moment of evaluation. The comparison of line 51 is \<^verbatim>\<open>date < new Date()\<close>: a draft
  whose date-time equals the clock reading gets no \<^verbatim>\<open>date\<close> error, validates, and is
  passed to \<^verbatim>\<open>onSubmit\<close>. The comment of line 50 and the message of line 52 both ask
  for a date in the future.
\<close>

theorem validateForm_date_equal_to_now:
  "let p = \<lparr> doctors = [\<lparr> doctor_id = ''d1'', doctor_name = ''Ana'', specialty = ''Cardio'' \<rparr>],
                initialValues = None, isLoading = None \<rparr>;
       e = \<lparr> now = 1738317600000, LocalTZA = zoneUTC, OS = android \<rparr>;
       st = \<lparr> doctorId = ''d1'', date = Date (Some 1738317600000), notes = [],
                showDatePicker = False, showTimePicker = False, errors = [] \<rparr>
   in getTime (date st) = Some (now e) \<and>
      map_of (errors (fst (validateForm p e st))) ''date'' = None \<and>
      snd (validateForm p e st) \<and>
      snd (handleSubmit p e st) =
        [\<lparr> doctorId = ''d1'', date = Date (Some 1738317600000), notes = [] \<rparr>]"
  by (simp add: validateForm_def handleSubmit_def dateLess_def newDateNow_def Object_keys_def)

subsection \<open>C2: a valid draft is submitted once, as it stands\<close>

text \<open>
  C2: for every draft with a non-empty \<^verbatim>\<open>doctorId\<close> and a date-time strictly after the
  clock reading, validation produces the empty error mapping and returns true, and
  \<^verbatim>\<open>handleSubmit\<close> calls \<^verbatim>\<open>onSubmit\<close> exactly once, with the record
  \<^verbatim>\<open>{doctorId, date, notes}\<close> of the current state. A press on the submit button
  does the same when the form is not loading.
\<close>

theorem handleSubmit_valid:
  assumes "doctorId st \<noteq> []" and "date st = Date (Some t)" and "now e < t"
  shows "validateForm p e st = (st\<lparr>errors := []\<rparr>, True) \<and>
         handleSubmit p e st =
           (st\<lparr>errors := []\<rparr>,
            [\<lparr> doctorId = doctorId st, date = date st, notes = notes st \<rparr>]) \<and>
         (\<not> isLoadingOf p \<longrightarrow> dispatch p e PressSubmit st = handleSubmit p e st)"
proof -
  have nl: "\<not> dateLess (date st) (newDateNow (now e))"
    using assms(2,3) by (simp add: dateLess_def newDateNow_def)
  have v: "validateForm p e st = (st\<lparr>errors := []\<rparr>, True)"
    using assms(1) nl by (simp add: validateForm_def Let_def Object_keys_def)
  have h: "handleSubmit p e st =
           (st\<lparr>errors := []\<rparr>,
            [\<lparr> doctorId = doctorId st, date = date st, notes = notes st \<rparr>])"
    by (simp add: handleSubmit_def v)
  have d: "\<not> isLoadingOf p \<longrightarrow> dispatch p e PressSubmit st = handleSubmit p e st"
    by (simp add: pressButton_def submitButton_def)
  from v h d show ?thesis by blast
qed

theorem handleSubmit_valid_witness:
  "doctorId exampleState \<noteq> [] \<and>
   date exampleState = Date (Some 1738404000000) \<and>
   now exampleEnv < 1738404000000 \<and>
   \<not> isLoadingOf exampleProps \<and>
   validateForm exampleProps exampleEnv exampleState = (exampleState, True) \<and>
   dispatch exampleProps exampleEnv PressSubmit exampleState =
     (exampleState,
      [\<lparr> doctorId = ''d1'', date = Date (Some 1738404000000), notes = [] \<rparr>])"
proof -
  have h1: "doctorId exampleState \<noteq> []"
    by (simp add: exampleState_def)
  have h2: "date exampleState = Date (Some 1738404000000)"
    by (simp add: exampleState_def)
  have h3: "now exampleEnv < 1738404000000"
    by (simp add: exampleEnv_def)
  have h4: "\<not> isLoadingOf exampleProps"
    by (simp add: exampleProps_def isLoadingOf_def)
  have e: "exampleState\<lparr>errors := []\<rparr> = exampleState"
    by (simp add: exampleState_def)
  show ?thesis
    using handleSubmit_valid [OF h1 h2 h3, of exampleProps] h1 h2 h3 h4
    by (simp add: e) (simp add: exampleState_def)
qed

subsection \<open>C3: no doctor selected\<close>

text \<open>
  C3: for every draft whose \<^verbatim>\<open>doctorId\<close> is the empty string, validation reports an
  error on field \<^verbatim>\<open>doctorId\<close> and returns false, and neither \<^verbatim>\<open>handleSubmit\<close> nor a
  press on the submit button calls \<^verbatim>\<open>onSubmit\<close>.
\<close>

theorem handleSubmit_empty_doctorId:
  assumes "doctorId st = []"
  shows "map_of (errors (fst (validateForm p e st))) ''doctorId'' = Some doctorIdMessage \<and>
         \<not> snd (validateForm p e st) \<and>
         snd (handleSubmit p e st) = [] \<and>
         snd (dispatch p e PressSubmit st) = []"
proof -
  have m: "map_of (errors (fst (validateForm p e st))) ''doctorId'' = Some doctorIdMessage"
    using assms by (simp add: validateForm_errors)
  have v: "\<not> snd (validateForm p e st)"
    using assms by (simp add: validateForm_snd validateForm_errors)
  have h: "snd (handleSubmit p e st) = []"
    using v by (simp add: handleSubmit_calls)
  have d: "snd (dispatch p e PressSubmit st) = []"
    using h by (simp add: pressButton_def submitButton_def)
  from m v h d show ?thesis by blast
qed

theorem handleSubmit_empty_doctorId_witness:
  "doctorId (exampleState\<lparr>doctorId := []\<rparr>) = [] \<and>
   errors (fst (validateForm exampleProps exampleEnv (exampleState\<lparr>doctorId := []\<rparr>)))
     = [(''doctorId'', doctorIdMessage)] \<and>
   map_of (errors (fst (validateForm exampleProps exampleEnv (exampleState\<lparr>doctorId := []\<rparr>))))
     ''doctorId'' = Some doctorIdMessage \<and>
   snd (handleSubmit exampleProps exampleEnv (exampleState\<lparr>doctorId := []\<rparr>)) = [] \<and>
   snd (dispatch exampleProps exampleEnv PressSubmit (exampleState\<lparr>doctorId := []\<rparr>)) = []"
proof -
  have h: "doctorId (exampleState\<lparr>doctorId := []\<rparr>) = []"
    by simp
  have v: "errors (fst (validateForm exampleProps exampleEnv (exampleState\<lparr>doctorId := []\<rparr>)))
     = [(''doctorId'', doctorIdMessage)]"
    by (simp add: validateForm_errors exampleState_def exampleEnv_def dateLess_def
        newDateNow_def)
  show ?thesis
    using handleSubmit_empty_doctorId [OF h, of exampleProps exampleEnv] h v by simp
qed

subsection \<open>C4: the date picker at the end of a month\<close>

text \<open>
  C4 says that after \<^verbatim>\<open>onDateChange\<close> the date-time has the picker's year, month and
  day of the month, with the time of day as before. The handler sets the year, then the
  month, then the day, each on the result of the step before (lines 73 to 75). When the
  current day of the month does not exist in the picked month, \<^verbatim>\<open>setMonth\<close> runs over
  into the month after, and \<^verbatim>\<open>setDate\<close> then sets the day in that month. Here the
  draft is 2025-01-31 10:00 and the picker returns 2025-02-15: the state becomes
  2025-03-15 10:00, in March (month 2) and not in February (month 1). The device is on
  UTC.
\<close>

theorem onDateChange_end_of_month:
  "let p = \<lparr> doctors = [], initialValues = None, isLoading = None \<rparr>;
       e = \<lparr> now = 1738317600000, LocalTZA = zoneUTC, OS = android \<rparr>;
       st = \<lparr> doctorId = ''d1'', date = Date (Some 1738317600000), notes = [],
                showDatePicker = True, showTimePicker = False, errors = [] \<rparr>;
       sel = Date (Some 1739577600000);
       d' = date (onDateChange p e (Some sel) st);
       z = LocalTZA e
   in (getFullYear z (date st), getMonth z (date st), getDate z (date st),
         getHours z (date st), getMinutes z (date st))
        = (Some 2025, Some 0, Some 31, Some 10, Some 0) \<and>
      (getFullYear z sel, getMonth z sel, getDate z sel) = (Some 2025, Some 1, Some 15) \<and>
      d' = Date (Some 1742032800000) \<and>
      (getFullYear z d', getMonth z d', getDate z d', getHours z d', getMinutes z d')
        = (Some 2025, Some 2, Some 15, Some 10, Some 0) \<and>
      getMonth z d' \<noteq> getMonth z sel"
  by code_simp

subsection \<open>C5: the time picker\<close>




subsection \<open>C6: the submit button while loading\<close>

text \<open>
  C6: whenever \<^verbatim>\<open>isLoading\<close> is true, a press on the submit button does not call
  \<^verbatim>\<open>onSubmit\<close> and leaves the state as it is, whatever the draft. The gate is the
  \<^verbatim>\<open>disabled\<close> prop of the button (line 175); \<^verbatim>\<open>handleSubmit\<close> itself does not read
  \<^verbatim>\<open>isLoading\<close>.
\<close>

theorem pressSubmit_while_loading:
  assumes "isLoading p = Some True"
  shows "disabled (submitButton p e) \<and> dispatch p e PressSubmit st = (st, [])"
  using assms by (simp add: pressButton_def submitButton_def isLoadingOf_def)

theorem pressSubmit_while_loading_witness:
  "isLoading (exampleProps\<lparr>isLoading := Some True\<rparr>) = Some True \<and>
   snd (validateForm (exampleProps\<lparr>isLoading := Some True\<rparr>) exampleEnv exampleState) \<and>
   dispatch (exampleProps\<lparr>isLoading := Some True\<rparr>) exampleEnv PressSubmit exampleState
     = (exampleState, [])"
proof -
  have h: "isLoading (exampleProps\<lparr>isLoading := Some True\<rparr>) = Some True"
    by simp
  have v: "snd (validateForm (exampleProps\<lparr>isLoading := Some True\<rparr>) exampleEnv exampleState)"
    by (simp add: validateForm_snd validateForm_errors exampleState_def exampleEnv_def
        dateLess_def newDateNow_def)
  show ?thesis
    using pressSubmit_while_loading [OF h, of exampleEnv exampleState] h v by simp
qed

subsection \<open>C7: the validator's result and the stored mapping\<close>

text \<open>
  C7: \<^verbatim>\<open>validateForm\<close> returns true exactly when the mapping it has just computed has
  no keys, and it replaces the stored mapping by the computed one: the mapping stored
  before the pass has no influence on the state after it, and no other cell changes.
\<close>

theorem validateForm_wholesale:
  "snd (validateForm p e st)
     = (length (Object_keys (errors (fst (validateForm p e st)))) = 0) \<and>
   fst (validateForm p e (st\<lparr>errors := old\<rparr>)) = fst (validateForm p e st) \<and>
   fst (validateForm p e st) = st\<lparr>errors := errors (fst (validateForm p e st))\<rparr>"
  by (simp add: validateForm_def Let_def Object_keys_def)

subsection \<open>C8: validating twice\<close>

text \<open>
  C8 says that two validation passes in succession on an unchanged draft give the same
  error mapping. Each pass reads the clock anew (line 51). A draft whose date-time lies
  one second after the first reading validates in the first pass and gets the
  \<^verbatim>\<open>date\<close> error in a second pass two seconds after the first.
\<close>

theorem validateForm_twice_counterexample:
  "let p = \<lparr> doctors = [], initialValues = None, isLoading = None \<rparr>;
       e1 = \<lparr> now = 1738317600000, LocalTZA = zoneUTC, OS = android \<rparr>;
       e2 = \<lparr> now = 1738317602000, LocalTZA = zoneUTC, OS = android \<rparr>;
       st = \<lparr> doctorId = ''d1'', date = Date (Some 1738317601000), notes = [],
                showDatePicker = False, showTimePicker = False, errors = [] \<rparr>;
       st1 = fst (validateForm p e1 st);
       st2 = fst (validateForm p e2 st1)
   in (doctorId st1, date st1, notes st1) = (doctorId st, date st, notes st) \<and>
      errors st1 = [] \<and>
      errors st2 = [(''date'', dateMessage)] \<and>
      errors st2 \<noteq> errors st1"
  by (simp add: validateForm_def dateLess_def newDateNow_def Object_keys_def)

text \<open>
  C8 as amended: let the two passes read the clock values \<open>now e1\<close> and \<open>now e2\<close>, in
  either order (the clock of the device may be set back between them). The second pass
  stores the same error mapping as the first exactly when the draft's date-time is not a
  time value that is at or after one of the two readings and before the other. In
  particular the mappings are the same when both passes read the same clock value, when
  the date-time is before both readings or at or after both, and when the Date is
  invalid.
\<close>

theorem validateForm_twice:
  "(errors (fst (validateForm p e2 (fst (validateForm p e1 st)))) =
    errors (fst (validateForm p e1 st)))
   = (\<not> (\<exists>t. getTime (date st) = Some t \<and>
             ((now e1 \<le> t \<and> t < now e2) \<or> (now e2 \<le> t \<and> t < now e1))))"
  by (cases "getTime (date st)")
     (auto simp add: validateForm_errors validateForm_draft dateLess_def newDateNow_def)

theorem validateForm_twice_witness:
  "(let e1 = exampleEnv;
        e2 = exampleEnv\<lparr>now := 1738317660000\<rparr>;
        st = exampleState\<lparr>doctorId := [], date := Date (Some 1738317000000)\<rparr>;
        st1 = fst (validateForm exampleProps e1 st);
        st2 = fst (validateForm exampleProps e2 st1)
    in now e1 < now e2 \<and>
       errors st1 = [(''doctorId'', doctorIdMessage), (''date'', dateMessage)] \<and>
       errors st2 = errors st1)"
proof -
  have n: "now exampleEnv < now (exampleEnv\<lparr>now := 1738317660000\<rparr>)"
    by (simp add: exampleEnv_def)
  have a: "errors (fst (validateForm exampleProps exampleEnv
             (exampleState\<lparr>doctorId := [], date := Date (Some 1738317000000)\<rparr>)))
           = [(''doctorId'', doctorIdMessage), (''date'', dateMessage)]"
    by (simp add: validateForm_errors exampleEnv_def dateLess_def newDateNow_def)
  have b: "\<not> (\<exists>t. getTime (date (exampleState\<lparr>doctorId := [],
                        date := Date (Some 1738317000000)\<rparr>)) = Some t \<and>
             ((now exampleEnv \<le> t \<and> t < now (exampleEnv\<lparr>now := 1738317660000\<rparr>)) \<or>
              (now (exampleEnv\<lparr>now := 1738317660000\<rparr>) \<le> t \<and> t < now exampleEnv)))"
    by (simp add: exampleEnv_def)
  show ?thesis
    using validateForm_twice [of exampleProps "exampleEnv\<lparr>now := 1738317660000\<rparr>"
        exampleEnv "exampleState\<lparr>doctorId := [], date := Date (Some 1738317000000)\<rparr>"]
      n a b
    by (simp add: Let_def)
qed

text \<open>
  A clock set back between the passes: the first pass stores the \<^verbatim>\<open>date\<close> error and
  the second, read two seconds earlier, stores none.
\<close>

lemma validateForm_clock_set_back:
  "let p = \<lparr> doctors = [], initialValues = None, isLoading = None \<rparr>;
       e1 = \<lparr> now = 1738317602000, LocalTZA = zoneUTC, OS = android \<rparr>;
       e2 = \<lparr> now = 1738317600000, LocalTZA = zoneUTC, OS = android \<rparr>;
       st = \<lparr> doctorId = ''d1'', date = Date (Some 1738317601000), notes = [],
                showDatePicker = False, showTimePicker = False, errors = [] \<rparr>;
       st1 = fst (validateForm p e1 st);
       st2 = fst (validateForm p e2 st1)
   in errors st1 = [(''date'', dateMessage)] \<and> errors st2 = []"
  by (simp add: validateForm_def dateLess_def newDateNow_def Object_keys_def)

subsection \<open>C9: the doctors list takes no part\<close>

text \<open>
  C9: validation of \<^verbatim>\<open>doctorId\<close> looks at emptiness only. For every non-empty
  \<^verbatim>\<open>doctorId\<close>, also one that no doctor of the list has, no \<^verbatim>\<open>doctorId\<close> error is
  reported; and replacing the \<^verbatim>\<open>doctors\<close> list by any other changes neither the result
  of validation nor what any event does to the state and passes to \<^verbatim>\<open>onSubmit\<close>.
\<close>

theorem doctors_no_influence:
  "(doctorId st \<noteq> [] \<longrightarrow> map_of (errors (fst (validateForm p e st))) ''doctorId'' = None) \<and>
   validateForm (p\<lparr>doctors := ds\<rparr>) e st = validateForm p e st \<and>
   handleSubmit (p\<lparr>doctors := ds\<rparr>) e st = handleSubmit p e st \<and>
   dispatch (p\<lparr>doctors := ds\<rparr>) e ev st = dispatch p e ev st"
proof -
  have a: "doctorId st \<noteq> [] \<longrightarrow>
           map_of (errors (fst (validateForm p e st))) ''doctorId'' = None"
    by (simp add: validateForm_errors)
  have v: "validateForm (p\<lparr>doctors := ds\<rparr>) e x = validateForm p e x" for x
    by (simp add: validateForm_def)
  have h: "handleSubmit (p\<lparr>doctors := ds\<rparr>) e x = handleSubmit p e x" for x
    by (simp add: handleSubmit_def v)
  have b: "submitButton (p\<lparr>doctors := ds\<rparr>) e = submitButton p e"
    by (simp add: submitButton_def isLoadingOf_def fun_eq_iff h)
  have d: "dispatch (p\<lparr>doctors := ds\<rparr>) e ev st = dispatch p e ev st"
    by (cases ev) (simp_all add: b onDateChange_def onTimeChange_def)
  from a v h d show ?thesis by blast
qed

theorem doctors_no_influence_witness:
  "doctorId (exampleState\<lparr>doctorId := ''zz''\<rparr>) \<noteq> [] \<and>
   ''zz'' \<notin> set (map doctor_id (doctors exampleProps)) \<and>
   map_of (errors (fst (validateForm exampleProps exampleEnv
                          (exampleState\<lparr>doctorId := ''zz''\<rparr>)))) ''doctorId'' = None \<and>
   dispatch (exampleProps\<lparr>doctors := []\<rparr>) exampleEnv PressSubmit
       (exampleState\<lparr>doctorId := ''zz''\<rparr>)
     = dispatch exampleProps exampleEnv PressSubmit (exampleState\<lparr>doctorId := ''zz''\<rparr>) \<and>
   snd (dispatch exampleProps exampleEnv PressSubmit (exampleState\<lparr>doctorId := ''zz''\<rparr>))
     = [\<lparr> doctorId = ''zz'', date = Date (Some 1738404000000), notes = [] \<rparr>]"
proof -
  have h: "doctorId (exampleState\<lparr>doctorId := ''zz''\<rparr>) \<noteq> []"
    by simp
  have n: "''zz'' \<notin> set (map doctor_id (doctors exampleProps))"
    by (simp add: exampleProps_def)
  have s: "snd (dispatch exampleProps exampleEnv PressSubmit (exampleState\<lparr>doctorId := ''zz''\<rparr>))
     = [\<lparr> doctorId = ''zz'', date = Date (Some 1738404000000), notes = [] \<rparr>]"
    by (simp add: pressButton_def submitButton_def isLoadingOf_def exampleProps_def
        handleSubmit_calls validateForm_snd validateForm_errors exampleState_def
        exampleEnv_def dateLess_def newDateNow_def)
  show ?thesis
    using doctors_no_influence [of "exampleState\<lparr>doctorId := ''zz''\<rparr>" exampleProps
        exampleEnv "[]" PressSubmit] h n s
    by simp
qed

subsection \<open>C10: a picker event without a value\<close>

text \<open>
  C10: when \<^verbatim>\<open>onDateChange\<close> or \<^verbatim>\<open>onTimeChange\<close> is called without a selected
  value, the date-time of the state stays as it is; only the visibility flag of that
  picker is set, to whether the platform is iOS.
\<close>

theorem picker_change_without_value:
  "onDateChange p e None st = st\<lparr>showDatePicker := (OS e = ios)\<rparr> \<and>
   onTimeChange p e None st = st\<lparr>showTimePicker := (OS e = ios)\<rparr> \<and>
   date (onDateChange p e None st) = date st \<and>
   date (onTimeChange p e None st) = date st"
  by (simp add: onDateChange_def onTimeChange_def)

end
